theory Spec2Isabelle
  imports Main "HOL-Library.Sublist"
begin

section \<open>JavaScript values used by model.ts\<close>

text \<open>
  Strings are character lists. The characters that model.ts tests for are all ASCII (tab,
  carriage return, line feed, the status letters and the two sentinels of the log format),
  so a character is an Isabelle \<^typ>\<open>char\<close>.
\<close>

definition TAB :: char where
  "TAB = CHR 0x09"

definition LF :: char where
  "LF = CHR 0x0A"

definition CR :: char where
  "CR = CHR 0x0D"

text \<open>
  The errors that model.ts can raise: \<open>new Error(msg)\<close>, thrown by the status-line parser, and
  the engine's TypeError (a method called on \<open>undefined\<close>, or \<open>path.join\<close> given a
  non-string). The TypeError carries the operation that raised it.
\<close>

datatype type_error_origin = Property_of_undefined | Path_not_a_string

datatype js_error = Error string | TypeError type_error_origin

subsection \<open>String.prototype.split\<close>

text \<open>
  \<open>split_at m s\<close> scans \<open>s\<close> from the left. \<open>m\<close> is the separator's matcher: at the text
  that starts at the current position it returns the length of the match there, or 0 when
  there is none. A match closes the current piece and the scan goes on behind it; the last
  piece is closed by the end of the string, so the result is never empty.
\<close>

fun split_at :: "(string \<Rightarrow> nat) \<Rightarrow> string \<Rightarrow> string list" where
  "split_at m [] = [[]]"
| "split_at m (c # cs) =
     (if 0 < m (c # cs) then [] # split_at m (drop (m (c # cs) - 1) cs)
      else (case split_at m cs of
              [] \<Rightarrow> [[c]]
            | piece # pieces \<Rightarrow> (c # piece) # pieces))"

text \<open>A string separator matches where it is a prefix of the remaining text.\<close>

definition match_string :: "string \<Rightarrow> string \<Rightarrow> nat" where
  "match_string sep s = (if prefix sep s then length sep else 0)"

text \<open>\<open>s.split(sep)\<close> for a string \<open>sep\<close>; the empty separator cuts between all characters.\<close>

definition split_string :: "string \<Rightarrow> string \<Rightarrow> string list" where
  "split_string sep s =
     (if sep = [] then map (\<lambda>c. [c]) s else split_at (match_string sep) s)"

text \<open>The regular expression \<open>/\t/g\<close>: one tab.\<close>

definition match_tab :: "string \<Rightarrow> nat" where
  "match_tab s = (if prefix [TAB] s then 1 else 0)"

text \<open>The regular expression \<open>/\r?\n/g\<close>: a line feed, with the carriage return before it if any.\<close>

definition match_newline :: "string \<Rightarrow> nat" where
  "match_newline s = (if prefix [CR, LF] s then 2 else if prefix [LF] s then 1 else 0)"

subsection \<open>toLocaleUpperCase on one character\<close>

text \<open>
  The letters a to z go to A to Z and every other character stays as it is. model.ts only
  compares the result with the letters M, A, D, R and C, which no character outside ASCII
  is mapped to, and \<open>toUpperCase\<close> is the same function on these characters.
\<close>

definition toLocaleUpperCase :: "char \<Rightarrow> char" where
  "toLocaleUpperCase c =
     (let n = (of_char c :: nat) in if 97 \<le> n \<and> n \<le> 122 then char_of (n - 32) else c)"

section \<open>createUri and Resource\<close>

text \<open>
  \<open>path.join(a, b)\<close> and \<open>Uri.file(p)\<close> belong to Node and to the editor. The joined path is
  kept as the pair of its arguments and the Uri as the path it was made from: no property
  of model.ts depends on how a path is normalised. What model.ts does depend on is that
  \<open>path.join\<close> raises a TypeError for an argument that is not a string, checking its
  arguments from left to right. \<open>workspace.rootPath\<close> is undefined when no folder is open.
\<close>

datatype path = Join string string

datatype Uri = File path

definition path_join :: "string option \<Rightarrow> string option \<Rightarrow> js_error + path" where
  "path_join a b =
     (case a of
        None \<Rightarrow> Inl (TypeError Path_not_a_string)
      | Some a' \<Rightarrow>
          (case b of
             None \<Rightarrow> Inl (TypeError Path_not_a_string)
           | Some b' \<Rightarrow> Inr (Join a' b')))"

definition createUri :: "string option \<Rightarrow> string option \<Rightarrow> js_error + Uri" where
  "createUri rootPath relativePath =
     (case path_join rootPath relativePath of
        Inl e \<Rightarrow> Inl e
      | Inr absPath \<Rightarrow> Inr (File absPath))"

text \<open>
  The three private fields of a Resource, \<open>_file\<close>, \<open>_resourceUri\<close> and \<open>_status\<close>. A field
  that was never assigned is \<open>undefined\<close> in JavaScript: \<open>None\<close> here.
\<close>

record Resource =
  p_file :: "string option"
  p_resourceUri :: "Uri option"
  p_status :: "string option"

definition unassigned_Resource :: Resource where
  "unassigned_Resource = \<lparr>p_file = None, p_resourceUri = None, p_status = None\<rparr>"

text \<open>\<open>contents[i]\<close>: undefined beyond the end of the array.\<close>

definition index :: "'a list \<Rightarrow> nat \<Rightarrow> 'a option" where
  "index xs i = (if i < length xs then Some (xs ! i) else None)"

text \<open>
  The tail of parseInfoLine, after the switch has assigned \<open>this._file\<close>: build the Uri and
  store the status field.
\<close>

definition assign_fields ::
    "string option \<Rightarrow> string list \<Rightarrow> string option \<Rightarrow> Resource \<Rightarrow> js_error + Resource" where
  "assign_fields rootPath contents f this =
     (case createUri rootPath f of
        Inl e \<Rightarrow> Inl e
      | Inr uri \<Rightarrow> Inr (this\<lparr>p_file := f, p_resourceUri := Some uri, p_status := index contents 0\<rparr>))"

definition parseInfoLine :: "string option \<Rightarrow> string \<Rightarrow> Resource \<Rightarrow> js_error + Resource" where
  "parseInfoLine rootPath info this =
     (let contents = split_at match_tab info in
      if length contents < 2 then Inr this
      else
        (case contents ! 0 of
           [] \<Rightarrow> Inl (TypeError Property_of_undefined)
         | c # _ \<Rightarrow>
             (let u = toLocaleUpperCase c in
              if u = CHR ''M'' \<or> u = CHR ''A'' \<or> u = CHR ''D''
                then assign_fields rootPath contents (index contents 1) this
              else if u = CHR ''R'' \<or> u = CHR ''C''
                then assign_fields rootPath contents (index contents 2) this
              else Inl (Error (''Cannot parse '' @ info)))))"

text \<open>\<open>new Resource(info)\<close>: the constructor runs parseInfoLine on the fresh object.\<close>

definition new_Resource :: "string option \<Rightarrow> string \<Rightarrow> js_error + Resource" where
  "new_Resource rootPath info = parseInfoLine rootPath info unassigned_Resource"

subsection \<open>The decorations of a Resource\<close>

text \<open>
  \<open>Resource.Icons[theme].Modified\<close> and its siblings are kept as the pair of the theme and the
  icon. \<open>getIconPath\<close> reads \<open>this._status[0]\<close> and \<open>decorations\<close> reads \<open>this._status\<close>: both
  raise a TypeError on a Resource whose status was never assigned.
\<close>

datatype theme = Light | Dark

datatype icon = Modified | Added | Deleted | Renamed | Copied

definition getIconPath :: "Resource \<Rightarrow> theme \<Rightarrow> js_error + (theme \<times> icon) option" where
  "getIconPath this t =
     (case p_status this of
        None \<Rightarrow> Inl (TypeError Property_of_undefined)
      | Some [] \<Rightarrow> Inl (TypeError Property_of_undefined)
      | Some (c # _) \<Rightarrow>
          (let u = toLocaleUpperCase c in
           Inr (if u = CHR ''M'' then Some (t, Modified)
                else if u = CHR ''A'' then Some (t, Added)
                else if u = CHR ''D'' then Some (t, Deleted)
                else if u = CHR ''R'' then Some (t, Renamed)
                else if u = CHR ''C'' then Some (t, Copied)
                else None)))"

record SourceControlResourceDecorations =
  strikeThrough :: bool
  faded :: bool
  light :: "(theme \<times> icon) option"
  dark :: "(theme \<times> icon) option"

definition decorations :: "Resource \<Rightarrow> js_error + SourceControlResourceDecorations" where
  "decorations this =
     (case getIconPath this Light of
        Inl e \<Rightarrow> Inl e
      | Inr l \<Rightarrow>
          (case getIconPath this Dark of
             Inl e \<Rightarrow> Inl e
           | Inr d \<Rightarrow>
               (case p_status this of
                  None \<Rightarrow> Inl (TypeError Property_of_undefined)
                | Some s \<Rightarrow>
                    (let deleted = (map toLocaleUpperCase s = ''D'') in
                     Inr \<lparr>strikeThrough = deleted, faded = deleted, light = l, dark = d\<rparr>))))"

section \<open>runGitCommand\<close>

text \<open>
  What \<open>spawn('git', args, ...)\<close> does, as far as Node reports it to model.ts.
  \<^item> \<open>Spawn_throws\<close>: the call itself throws.
  \<^item> \<open>Not_started\<close>: the call returns a child process that could not be started (no
    executable, no permission), and Node emits the \<open>error\<close> event on the child process at
    the next tick, before any event of a stream.
  \<^item> \<open>Not_started_without_streams\<close>: the same, for lack of file descriptors; the streams
    of the child process were not made and its \<open>stdout\<close> is undefined.
  \<^item> \<open>Started\<close>: the process runs; its exit status, and the events of its standard output
    stream in the order they are emitted.
  model.ts registers listeners for the four stream events only. It has no listener on the
  child process: the exit status reaches no code of model.ts, and the \<open>error\<close> event of the
  child process, having no listener, is thrown by Node as an uncaught exception.
\<close>

datatype stdout_event = Data string | End | Stream_error js_error | Close

datatype process =
    Spawn_throws js_error
  | Not_started js_error
  | Not_started_without_streams js_error
  | Started int "stdout_event list"

text \<open>
  The events of the standard output stream that reach the listeners: those of a started
  process. There are none when \<open>spawn\<close> throws, and none are looked at when the process could
  not be started, the uncaught exception coming before them.
\<close>

fun stdout :: "process \<Rightarrow> stdout_event list" where
  "stdout (Started status evs) = evs"
| "stdout (Not_started e) = []"
| "stdout (Not_started_without_streams e) = []"
| "stdout (Spawn_throws e) = []"

text \<open>
  The surroundings of model.ts: the workspace folder, and what \<open>git\<close> does when it is spawned
  with a given argument list.
\<close>

record host =
  rootPath :: "string option"
  git :: "string list \<Rightarrow> process"

text \<open>
  How an awaited operation ends. \<open>Pending\<close>: the promise never settles (the stream neither
  closes nor fails). \<open>Uncaught\<close>: an exception leaves through the event loop and not through
  the promise, because the end callback threw inside the stream's \<open>end\<close> listener or because
  the child process emitted \<open>error\<close>; what the host does then is not modelled.
\<close>

datatype 'a outcome = Fulfilled 'a | Rejected js_error | Uncaught js_error | Pending

text \<open>
  The four listeners, run over the events until the promise settles. \<open>content\<close> is the text
  buffered so far and \<open>s\<close> the variables that the end callback assigns. An end callback
  returns the variables as it left them and the exception it threw, if any.
\<close>

fun listeners ::
    "(string \<Rightarrow> 's \<Rightarrow> 's \<times> js_error option) \<Rightarrow> stdout_event list \<Rightarrow> string \<Rightarrow> 's
      \<Rightarrow> 's \<times> unit outcome" where
  "listeners endAction [] content s = (s, Pending)"
| "listeners endAction (Data d # evs) content s = listeners endAction evs (content @ d) s"
| "listeners endAction (End # evs) content s =
     (case endAction content s of
        (s', None) \<Rightarrow> listeners endAction evs content s'
      | (s', Some e) \<Rightarrow> (s', Uncaught e))"
| "listeners endAction (Stream_error err # evs) content s = (s, Rejected err)"
| "listeners endAction (Close # evs) content s = (s, Fulfilled ())"

text \<open>
  runGitCommand calls \<open>spawn\<close> with \<open>git\<close> and the arguments and returns the promise. The first
  component of the state is the list of argument lists that \<open>spawn\<close> was called with so far.
  The body is that of an async function: when \<open>spawn\<close> throws, the promise is rejected with
  what it threw, and when \<open>stdout\<close> is undefined, \<open>out.setEncoding\<close> raises a TypeError and
  the promise is rejected with that.
\<close>

definition runGitCommand ::
    "host \<Rightarrow> string list \<Rightarrow> (string \<Rightarrow> 's \<Rightarrow> 's \<times> js_error option) \<Rightarrow> string list list \<times> 's
      \<Rightarrow> (string list list \<times> 's) \<times> unit outcome" where
  "runGitCommand h args endAction w =
     (case w of
        (spawned, s) \<Rightarrow>
          (case git h args of
             Spawn_throws e \<Rightarrow> ((spawned @ [args], s), Rejected e)
           | Not_started e \<Rightarrow> ((spawned @ [args], s), Uncaught e)
           | Not_started_without_streams e \<Rightarrow>
               ((spawned @ [args], s), Rejected (TypeError Property_of_undefined))
           | Started status evs \<Rightarrow>
               (case listeners endAction evs [] s of
                  (s', out) \<Rightarrow> ((spawned @ [args], s'), out))))"

section \<open>Model\<close>

record LogEntry =
  subject :: "string option"
  hash :: "string option"
  ref :: "string option"
  author :: "string option"
  email :: "string option"
  date :: "string option"

text \<open>\<open>_sha\<close> and \<open>_resourceGroup.resourceStates\<close>.\<close>

record Model =
  sha :: "string option"
  resourceStates :: "Resource list"

subsection \<open>getLogEntries\<close>

definition entrySeparator :: string where
  "entrySeparator = ''471a2a19-885e-47f8-bff3-db43a3cdfaed''"

definition itemSeparator :: string where
  "itemSeparator = ''e69fde18-a303-4529-963d-f5b63b7b1664''"

definition format :: string where
  "format = ''--format='' @ itemSeparator @ ''%s'' @ itemSeparator @ ''%h'' @ itemSeparator @ ''%d''
     @ itemSeparator @ ''%aN'' @ itemSeparator @ ''%ae'' @ itemSeparator @ ''%cr'' @ entrySeparator"

text \<open>The six variables declared per entry, all undefined at first.\<close>

definition undefined_items :: LogEntry where
  "undefined_items =
     \<lparr>subject = None, hash = None, ref = None, author = None, email = None, date = None\<rparr>"

text \<open>
  The inner forEach over the items of one entry, from the given index on. The state is the
  six variables and the \<open>entries\<close> array.
\<close>

fun forEach_item :: "nat \<Rightarrow> string list \<Rightarrow> LogEntry \<times> LogEntry list \<Rightarrow> LogEntry \<times> LogEntry list" where
  "forEach_item i [] st = st"
| "forEach_item i (v # rest) (items, entries) =
     (if i = 0 then forEach_item (Suc i) rest (items, entries)
      else
        (let k = (i - 1) mod 6 in
         forEach_item (Suc i) rest
           (if k = 0 then (items\<lparr>subject := Some v\<rparr>, entries)
            else if k = 1 then (items\<lparr>hash := Some v\<rparr>, entries)
            else if k = 2 then (items\<lparr>ref := Some v\<rparr>, entries)
            else if k = 3 then (items\<lparr>author := Some v\<rparr>, entries)
            else if k = 4 then (items\<lparr>email := Some v\<rparr>, entries)
            else (items\<lparr>date := Some v\<rparr>, entries @ [items\<lparr>date := Some v\<rparr>]))))"

text \<open>The outer forEach over the entry fragments.\<close>

fun forEach_entry :: "string list \<Rightarrow> LogEntry list \<Rightarrow> LogEntry list" where
  "forEach_entry [] entries = entries"
| "forEach_entry (entry # rest) entries =
     (if entry = [] then forEach_entry rest entries
      else forEach_entry rest
             (snd (forEach_item 0 (split_string itemSeparator entry) (undefined_items, entries))))"

definition getLogEntries_endAction :: "string \<Rightarrow> LogEntry list \<Rightarrow> LogEntry list \<times> js_error option" where
  "getLogEntries_endAction content entries =
     (forEach_entry (split_string entrySeparator content) entries, None)"

text \<open>A number spliced into a template string; \<open>start\<close> and \<open>count\<close> are taken to be integers.\<close>

fun decimal :: "nat \<Rightarrow> string" where
  "decimal n =
     (if n < 10 then [char_of (48 + n)] else decimal (n div 10) @ [char_of (48 + n mod 10)])"

declare decimal.simps [simp del]

definition string_of_number :: "int \<Rightarrow> string" where
  "string_of_number i = (if i < 0 then CHR ''-'' # decimal (nat (- i)) else decimal (nat i))"

definition getLogEntries_args :: "int \<Rightarrow> int \<Rightarrow> string list" where
  "getLogEntries_args start count =
     [''log'', format, ''--skip='' @ string_of_number start,
      ''--max-count='' @ string_of_number count]"

definition getLogEntries ::
    "host \<Rightarrow> int \<Rightarrow> int \<Rightarrow> string list list \<Rightarrow> string list list \<times> LogEntry list outcome" where
  "getLogEntries h start count spawned =
     (case runGitCommand h (getLogEntries_args start count) getLogEntries_endAction (spawned, []) of
        ((spawned', entries), out) \<Rightarrow>
          (spawned',
           (case out of
              Fulfilled _ \<Rightarrow> Fulfilled entries
            | Rejected e \<Rightarrow> Rejected e
            | Uncaught e \<Rightarrow> Uncaught e
            | Pending \<Rightarrow> Pending)))"

subsection \<open>getCommitsCount\<close>

text \<open>
  \<open>parseInt(string)\<close> without a radix: leading white space is skipped, then a sign, then the
  prefix \<open>0x\<close> selects radix 16 (radix 10 otherwise), and the longest run of digits of the radix
  is the numeral. With no digit the result is NaN. \<open>Number n\<close> stands for the Number value of
  the integer \<open>n\<close>, which is \<open>n\<close> itself up to \<open>2 ^ 53\<close>; the sign of a zero is not kept.
\<close>

datatype number = NaN | Number int

definition isWhiteSpace :: "char \<Rightarrow> bool" where
  "isWhiteSpace c = ((of_char c :: nat) \<in> {9, 10, 11, 12, 13, 32})"

definition digit_value :: "char \<Rightarrow> nat option" where
  "digit_value c =
     (let n = (of_char c :: nat) in
      if 48 \<le> n \<and> n \<le> 57 then Some (n - 48)
      else if 97 \<le> n \<and> n \<le> 122 then Some (n - 87)
      else if 65 \<le> n \<and> n \<le> 90 then Some (n - 55)
      else None)"

definition is_digit :: "nat \<Rightarrow> char \<Rightarrow> bool" where
  "is_digit R c = (case digit_value c of None \<Rightarrow> False | Some d \<Rightarrow> d < R)"

definition numeral_value :: "nat \<Rightarrow> string \<Rightarrow> nat" where
  "numeral_value R Z = foldl (\<lambda>acc c. acc * R + (case digit_value c of None \<Rightarrow> 0 | Some d \<Rightarrow> d)) 0 Z"

definition parseInt :: "string \<Rightarrow> number" where
  "parseInt string =
     (let S = dropWhile isWhiteSpace string;
          negative = prefix ''-'' S;
          S1 = (if prefix ''-'' S \<or> prefix ''+'' S then drop 1 S else S);
          hex = (prefix ''0x'' S1 \<or> prefix ''0X'' S1);
          R = (if hex then 16 else 10);
          S2 = (if hex then drop 2 S1 else S1);
          Z = takeWhile (is_digit R) S2
      in if Z = [] then NaN
         else Number (if negative then - int (numeral_value R Z) else int (numeral_value R Z)))"

text \<open>The callback assigns \<open>count\<close>, which is undefined until then.\<close>

definition getCommitsCount_endAction :: "string \<Rightarrow> number option \<Rightarrow> number option \<times> js_error option" where
  "getCommitsCount_endAction content count = (Some (parseInt content), None)"

definition getCommitsCount ::
    "host \<Rightarrow> string list list \<Rightarrow> string list list \<times> number option outcome" where
  "getCommitsCount h spawned =
     (case runGitCommand h [''rev-list'', ''--count'', ''HEAD''] getCommitsCount_endAction (spawned, None) of
        ((spawned', count), out) \<Rightarrow>
          (spawned',
           (case out of
              Fulfilled _ \<Rightarrow> Fulfilled count
            | Rejected e \<Rightarrow> Rejected e
            | Uncaught e \<Rightarrow> Uncaught e
            | Pending \<Rightarrow> Pending)))"

subsection \<open>update and _updateResources\<close>

text \<open>
  The forEach over the output lines, from the given index on: line 0 is stored in \<open>_sha\<close>,
  every non-empty line after line 1 is made a Resource and pushed. A constructor that
  throws ends the loop with the assignments made so far.
\<close>

fun forEach_line ::
    "string option \<Rightarrow> nat \<Rightarrow> string list \<Rightarrow> Model \<times> Resource list
      \<Rightarrow> (Model \<times> Resource list) \<times> js_error option" where
  "forEach_line root i [] st = (st, None)"
| "forEach_line root i (v # rest) (this, resources) =
     (let this' = (if i = 0 then this\<lparr>sha := Some v\<rparr> else this) in
      if 1 < i \<and> v \<noteq> [] then
        (case new_Resource root v of
           Inl e \<Rightarrow> ((this', resources), Some e)
         | Inr r \<Rightarrow> forEach_line root (Suc i) rest (this', resources @ [r]))
      else forEach_line root (Suc i) rest (this', resources))"

definition updateResources_endAction ::
    "string option \<Rightarrow> string \<Rightarrow> Model \<times> Resource list \<Rightarrow> (Model \<times> Resource list) \<times> js_error option" where
  "updateResources_endAction root content st = forEach_line root 0 (split_at match_newline content) st"

definition updateResources_args :: "string \<Rightarrow> string list" where
  "updateResources_args commit = [''show'', ''--format=%h'', ''--name-status'', commit]"

definition updateResources ::
    "host \<Rightarrow> string \<Rightarrow> string list list \<times> Model
      \<Rightarrow> (string list list \<times> Model) \<times> Resource list outcome" where
  "updateResources h commit w =
     (case w of
        (spawned, this) \<Rightarrow>
          (case runGitCommand h (updateResources_args commit)
                  (updateResources_endAction (rootPath h)) (spawned, (this, [])) of
             ((spawned', (this', resources)), out) \<Rightarrow>
               ((spawned', this'),
                (case out of
                   Fulfilled _ \<Rightarrow> Fulfilled resources
                 | Rejected e \<Rightarrow> Rejected e
                 | Uncaught e \<Rightarrow> Uncaught e
                 | Pending \<Rightarrow> Pending))))"

text \<open>
  \<open>update(sha)\<close>. The argument is \<open>None\<close> for undefined or null; it is falsy when it is that or
  the empty string.
\<close>

definition falsy :: "string option \<Rightarrow> bool" where
  "falsy commit = (case commit of None \<Rightarrow> True | Some s \<Rightarrow> s = [])"

definition update ::
    "host \<Rightarrow> string option \<Rightarrow> string list list \<times> Model \<Rightarrow> (string list list \<times> Model) \<times> unit outcome" where
  "update h commit w =
     (case w of
        (spawned, this) \<Rightarrow>
          (if falsy commit then ((spawned, this\<lparr>resourceStates := []\<rparr>), Fulfilled ())
           else
             (case updateResources h (the commit) (spawned, this) of
                ((spawned', this'), out) \<Rightarrow>
                  (case out of
                     Fulfilled resources \<Rightarrow> ((spawned', this'\<lparr>resourceStates := resources\<rparr>), Fulfilled ())
                   | Rejected e \<Rightarrow> ((spawned', this'), Rejected e)
                   | Uncaught e \<Rightarrow> ((spawned', this'), Uncaught e)
                   | Pending \<Rightarrow> ((spawned', this'), Pending)))))"

subsection \<open>getCurrentBranch\<close>

text \<open>\<open>name.trim()\<close>: white space removed at both ends.\<close>

definition trim :: "string \<Rightarrow> string" where
  "trim s = rev (dropWhile isWhiteSpace (rev (dropWhile isWhiteSpace s)))"

definition getCurrentBranch_endAction :: "string \<Rightarrow> string \<Rightarrow> string \<times> js_error option" where
  "getCurrentBranch_endAction content name = (content, None)"

definition getCurrentBranch :: "host \<Rightarrow> string list list \<Rightarrow> string list list \<times> string outcome" where
  "getCurrentBranch h spawned =
     (case runGitCommand h [''rev-parse'', ''--abbrev-ref'', ''HEAD''] getCurrentBranch_endAction
             (spawned, []) of
        ((spawned', name), out) \<Rightarrow>
          (spawned',
           (case out of
              Fulfilled _ \<Rightarrow> Fulfilled (trim name)
            | Rejected e \<Rightarrow> Rejected e
            | Uncaught e \<Rightarrow> Uncaught e
            | Pending \<Rightarrow> Pending)))"

section \<open>Reference values for the properties\<close>

text \<open>The LogEntry that six fields stand for, in the order of the format string.\<close>

definition LogEntry_of_fields :: "string list \<Rightarrow> LogEntry" where
  "LogEntry_of_fields fs =
     \<lparr>subject = Some (fs ! 0), hash = Some (fs ! 1), ref = Some (fs ! 2), author = Some (fs ! 3),
      email = Some (fs ! 4), date = Some (fs ! 5)\<rparr>"

text \<open>
  The text that the format string makes of one commit, without the entry separator that
  ends it, and the output for a list of commits. (\<open>git log\<close> itself puts a line feed behind
  every entry separator; that is not part of these.)
\<close>

definition items_text :: "string list \<Rightarrow> string" where
  "items_text fs = concat (map (\<lambda>f. itemSeparator @ f) fs)"

definition log_output :: "string list list \<Rightarrow> string" where
  "log_output recs = concat (map (\<lambda>fs. items_text fs @ entrySeparator) recs)"

text \<open>
  The fields of a commit can be told apart when no item separator begins inside a field
  (not even one that runs over into the separator behind the field) and no entry separator
  begins anywhere in the text of the commit.
\<close>

definition separable :: "string list \<Rightarrow> bool" where
  "separable fs \<longleftrightarrow>
     (\<forall>f \<in> set (butlast fs). \<not> sublist itemSeparator (f @ butlast itemSeparator)) \<and>
     \<not> sublist itemSeparator (last fs) \<and>
     \<not> sublist entrySeparator (items_text fs @ butlast entrySeparator)"

text \<open>
  Hosts with the workspace folder \<open>/ws\<close>. In the first, \<open>git\<close> exits with status 0 after
  writing the given chunks to its standard output. In the second, \<open>git\<close> fails as it does
  outside a repository or on a revision it cannot resolve: it writes nothing to its standard
  output (the message goes to standard error) and exits with status 128.
\<close>

definition git_printing :: "string list \<Rightarrow> string list \<Rightarrow> process" where
  "git_printing chunks args = Started 0 (map Data chunks @ [End, Close])"

definition host_printing :: "string list \<Rightarrow> host" where
  "host_printing chunks = \<lparr>rootPath = Some ''/ws'', git = git_printing chunks\<rparr>"

definition git_failing :: "string list \<Rightarrow> process" where
  "git_failing args = Started 128 [End, Close]"

definition host_failing :: host where
  "host_failing = \<lparr>rootPath = Some ''/ws'', git = git_failing\<rparr>"

text \<open>
  Two more hosts. In one the standard output stream of \<open>git\<close> fails after a first chunk; in
  the other there is no \<open>git\<close> to run.
\<close>

definition git_stream_error :: "string list \<Rightarrow> process" where
  "git_stream_error args = Started 0 [Data ''mas'', Stream_error (Error ''read EIO''), Close]"

definition host_stream_error :: host where
  "host_stream_error = \<lparr>rootPath = Some ''/ws'', git = git_stream_error\<rparr>"

definition git_missing :: "string list \<Rightarrow> process" where
  "git_missing args = Not_started (Error ''spawn git ENOENT'')"

definition host_without_git :: host where
  "host_without_git = \<lparr>rootPath = Some ''/ws'', git = git_missing\<rparr>"

section \<open>The status-line parser\<close>

lemma split_at_nonempty: "split_at m s \<noteq> []"
  by (induction m s rule: split_at.induct) (auto split: list.splits)

lemma char_eq_code: "c = d \<longleftrightarrow> (of_char c :: nat) = of_char d"
  by simp

lemma upper_code:
  "(of_char (toLocaleUpperCase c) :: nat) =
     (if 97 \<le> (of_char c :: nat) \<and> (of_char c :: nat) \<le> 122 then of_char c - 32 else of_char c)"
  by (auto simp: toLocaleUpperCase_def Let_def)

lemma upper_iff:
  "toLocaleUpperCase c = CHR ''M'' \<longleftrightarrow> c = CHR ''M'' \<or> c = CHR ''m''"
  "toLocaleUpperCase c = CHR ''A'' \<longleftrightarrow> c = CHR ''A'' \<or> c = CHR ''a''"
  "toLocaleUpperCase c = CHR ''D'' \<longleftrightarrow> c = CHR ''D'' \<or> c = CHR ''d''"
  "toLocaleUpperCase c = CHR ''R'' \<longleftrightarrow> c = CHR ''R'' \<or> c = CHR ''r''"
  "toLocaleUpperCase c = CHR ''C'' \<longleftrightarrow> c = CHR ''C'' \<or> c = CHR ''c''"
  unfolding char_eq_code [of _ "CHR ''M''"] char_eq_code [of _ "CHR ''m''"]
    char_eq_code [of _ "CHR ''A''"] char_eq_code [of _ "CHR ''a''"]
    char_eq_code [of _ "CHR ''D''"] char_eq_code [of _ "CHR ''d''"]
    char_eq_code [of _ "CHR ''R''"] char_eq_code [of _ "CHR ''r''"]
    char_eq_code [of _ "CHR ''C''"] char_eq_code [of _ "CHR ''c''"] upper_code
  by (simp_all; arith)+

lemma createUri_Some: "createUri (Some root) (Some p) = Inr (File (Join root p))"
  by (simp add: createUri_def path_join_def)

lemma createUri_undefined_path: "createUri root None = Inl (TypeError Path_not_a_string)"
  by (simp add: createUri_def path_join_def split: option.splits)

lemma in_MAD: "c \<in> set ''MADmad'' \<longleftrightarrow>
    toLocaleUpperCase c = CHR ''M'' \<or> toLocaleUpperCase c = CHR ''A'' \<or> toLocaleUpperCase c = CHR ''D''"
  unfolding upper_iff by (simp add: disj_ac)

lemma in_RC: "c \<in> set ''RCrc'' \<longleftrightarrow>
    toLocaleUpperCase c = CHR ''R'' \<or> toLocaleUpperCase c = CHR ''C''"
  unfolding upper_iff by (simp add: disj_ac)

lemma in_MADRC: "c \<in> set ''MADRCmadrc'' \<longleftrightarrow> c \<in> set ''MADmad'' \<or> c \<in> set ''RCrc''"
  by (simp add: disj_ac)

lemma parseInfoLine_switch:
  assumes "contents = split_at match_tab info"
    and "2 \<le> length contents"
    and "contents ! 0 = c # cs"
  shows "parseInfoLine root info this =
    (if c \<in> set ''MADmad'' then assign_fields root contents (index contents 1) this
     else if c \<in> set ''RCrc'' then assign_fields root contents (index contents 2) this
     else Inl (Error (''Cannot parse '' @ info)))"
  unfolding in_MAD in_RC parseInfoLine_def Let_def
  using assms by simp

lemma assign_fields_Some:
  "assign_fields (Some root) contents (Some f) this =
     Inr (this\<lparr>p_file := Some f, p_resourceUri := Some (File (Join root f)),
              p_status := index contents 0\<rparr>)"
  by (simp add: assign_fields_def createUri_Some)

lemma assign_fields_None: "assign_fields root contents None this = Inl (TypeError Path_not_a_string)"
  by (simp add: assign_fields_def createUri_undefined_path)

text \<open>
  C1 (as amended). A status line with at least two tab-delimited fields whose first field
  begins with one of the letters M, A, D, R, C in either case, and with at least three fields
  when the letter is R or C, makes a Resource (a workspace folder being open): its file is
  the third field for R and C and the second field for M, A and D, its Uri is made from the
  workspace folder and that file, and its status is the first field as it is written.
\<close>

theorem recognized_line_yields_Resource:
  assumes "contents = split_at match_tab info"
    and "2 \<le> length contents"
    and "contents ! 0 = c # cs"
    and "c \<in> set ''MADRCmadrc''"
    and "c \<in> set ''RCrc'' \<Longrightarrow> 3 \<le> length contents"
  shows "new_Resource (Some root) info =
    Inr \<lparr>p_file = Some (if c \<in> set ''RCrc'' then contents ! 2 else contents ! 1),
         p_resourceUri =
           Some (File (Join root (if c \<in> set ''RCrc'' then contents ! 2 else contents ! 1))),
         p_status = Some (c # cs)\<rparr>"
proof -
  from assms(2) have "0 < length contents" "1 < length contents" by linarith+
  then have i0: "index contents 0 = Some (c # cs)" and i1: "index contents 1 = Some (contents ! 1)"
    using assms(3) unfolding index_def by simp_all
  show ?thesis
  proof (cases "c \<in> set ''RCrc''")
    case True
    then have no: "c \<notin> set ''MADmad''" by auto
    from True assms(5) have "2 < length contents" by simp
    then have "index contents 2 = Some (contents ! 2)" unfolding index_def by simp
    then show ?thesis
      unfolding new_Resource_def parseInfoLine_switch [OF assms(1-3)]
      using True no i0 by (simp add: assign_fields_Some unassigned_Resource_def)
  next
    case False
    with assms(4) have yes: "c \<in> set ''MADmad''" unfolding in_MADRC by simp
    show ?thesis
      unfolding new_Resource_def parseInfoLine_switch [OF assms(1-3)]
      using False yes i0 i1 by (simp add: assign_fields_Some unassigned_Resource_def)
  qed
qed

text \<open>
  C5. A status line with at least two tab-delimited fields whose first field begins with a
  character other than M, A, D, R, C in either case makes the constructor throw the error
  \<open>Cannot parse\<close> followed by the line: no record is produced and the line is not skipped.
\<close>

theorem unrecognized_code_throws:
  assumes "contents = split_at match_tab info"
    and "2 \<le> length contents"
    and "contents ! 0 = c # cs"
    and "c \<notin> set ''MADRCmadrc''"
  shows "new_Resource root info = Inl (Error (''Cannot parse '' @ info))"
  unfolding new_Resource_def parseInfoLine_switch [OF assms(1-3)]
  using assms(4) unfolding in_MADRC by simp

text \<open>
  C10. A rename or copy line with exactly two tab-delimited fields has no third field: the
  file is undefined, building the Uri from it raises a TypeError, and the constructor fails
  with that TypeError and not with the \<open>Cannot parse\<close> error.
\<close>

theorem rename_with_two_fields_throws_TypeError:
  assumes "contents = split_at match_tab info"
    and "length contents = 2"
    and "contents ! 0 = c # cs"
    and "c \<in> set ''RCrc''"
  shows "index contents 2 = None \<and>
    new_Resource root info = Inl (TypeError Path_not_a_string) \<and>
    (\<forall>msg. new_Resource root info \<noteq> Inl (Error msg))"
proof -
  from assms(4) have no: "c \<notin> set ''MADmad''" by auto
  have two: "2 \<le> length contents" using assms(2) by simp
  have none: "index contents 2 = None" using assms(2) by (simp add: index_def)
  have "new_Resource root info = Inl (TypeError Path_not_a_string)"
    unfolding new_Resource_def parseInfoLine_switch [OF assms(1) two assms(3)]
    using no assms(4) none by (simp add: assign_fields_None)
  with none show ?thesis by simp
qed

lemma short_line_leaves_fields_undefined:
  assumes "length (split_at match_tab info) < 2"
  shows "new_Resource root info = Inr unassigned_Resource"
  using assms by (simp add: new_Resource_def parseInfoLine_def)

lemma empty_code_throws_TypeError:
  assumes "contents = split_at match_tab info"
    and "2 \<le> length contents"
    and "contents ! 0 = []"
  shows "new_Resource root info = Inl (TypeError Property_of_undefined)"
  using assms by (simp add: new_Resource_def parseInfoLine_def Let_def)

lemma split_modified_line:
  "split_at match_tab (''M'' @ [TAB] @ ''src/foo.ts'') = [''M'', ''src/foo.ts'']"
  by (simp add: match_tab_def TAB_def)

lemma split_renamed_line:
  "split_at match_tab (''R100'' @ [TAB] @ ''old/name.ts'' @ [TAB] @ ''new/name.ts'') =
     [''R100'', ''old/name.ts'', ''new/name.ts'']"
  by (simp add: match_tab_def TAB_def)

lemma split_short_renamed_line:
  "split_at match_tab (''R100'' @ [TAB] @ ''old/name.ts'') = [''R100'', ''old/name.ts'']"
  by (simp add: match_tab_def TAB_def)

lemma split_unknown_line:
  "split_at match_tab (''X'' @ [TAB] @ ''src/foo.ts'') = [''X'', ''src/foo.ts'']"
  by (simp add: match_tab_def TAB_def)

theorem recognized_line_witness:
  "new_Resource (Some ''/ws'') (''M'' @ [TAB] @ ''src/foo.ts'') =
     Inr \<lparr>p_file = Some ''src/foo.ts'',
          p_resourceUri = Some (File (Join ''/ws'' ''src/foo.ts'')),
          p_status = Some ''M''\<rparr> \<and>
   new_Resource (Some ''/ws'') (''R100'' @ [TAB] @ ''old/name.ts'' @ [TAB] @ ''new/name.ts'') =
     Inr \<lparr>p_file = Some ''new/name.ts'',
          p_resourceUri = Some (File (Join ''/ws'' ''new/name.ts'')),
          p_status = Some ''R100''\<rparr>"
  using recognized_line_yields_Resource
      [OF split_modified_line [symmetric], of "CHR ''M''" "[]" "''/ws''"]
    recognized_line_yields_Resource
      [OF split_renamed_line [symmetric], of "CHR ''R''" "''100''" "''/ws''"]
  by simp

text \<open>
  Outside these bounds the record is a different one: a rename line with two fields makes no
  Resource, a rename line with four fields takes its third field and not its last, and the
  status kept is the whole first field, not its first character.
\<close>

theorem recognized_line_counterexample:
  "new_Resource (Some ''/ws'') (''R100'' @ [TAB] @ ''old/name.ts'') =
     Inl (TypeError Path_not_a_string) \<and>
   new_Resource (Some ''/ws'') (''R100'' @ [TAB] @ ''a'' @ [TAB] @ ''b'' @ [TAB] @ ''c'') =
     Inr \<lparr>p_file = Some ''b'', p_resourceUri = Some (File (Join ''/ws'' ''b'')),
          p_status = Some ''R100''\<rparr>"
  by (simp add: new_Resource_def parseInfoLine_def match_tab_def TAB_def toLocaleUpperCase_def
      assign_fields_def createUri_def path_join_def index_def unassigned_Resource_def)

theorem unrecognized_code_witness:
  "new_Resource (Some ''/ws'') (''X'' @ [TAB] @ ''src/foo.ts'') =
     Inl (Error (''Cannot parse X'' @ [TAB] @ ''src/foo.ts''))"
  using unrecognized_code_throws
      [OF split_unknown_line [symmetric], of "CHR ''X''" "[]" "Some ''/ws''"]
  by simp

theorem rename_with_two_fields_witness:
  "index [''R100'', ''old/name.ts''] 2 = None \<and>
   new_Resource (Some ''/ws'') (''R100'' @ [TAB] @ ''old/name.ts'') =
     Inl (TypeError Path_not_a_string) \<and>
   (\<forall>msg. new_Resource (Some ''/ws'') (''R100'' @ [TAB] @ ''old/name.ts'') \<noteq> Inl (Error msg))"
  using rename_with_two_fields_throws_TypeError
      [OF split_short_renamed_line [symmetric], of "CHR ''R''" "''100''" "Some ''/ws''"]
  by simp

text \<open>
  C3. A line without a tab has one field; the constructor returns normally and the Resource
  it returns has no file, no Uri and no status. Such a line reaches the constructor from
  the message of an annotated tag, which \<open>git show\<close> prints and which is free text.
\<close>

theorem short_line_yields_unassigned_Resource:
  "new_Resource (Some ''/ws'') ''Date:   Thu Jan 1 00:00:00 1970 +0000'' =
     Inr \<lparr>p_file = None, p_resourceUri = None, p_status = None\<rparr>"
  by (simp add: new_Resource_def parseInfoLine_def match_tab_def TAB_def unassigned_Resource_def)

text \<open>
  The Resource made from such a line cannot be shown: reading its decorations raises a
  TypeError. The Resources of well-formed lines have the decorations expected of them.
\<close>

lemma decorations_of_unassigned_Resource:
  "decorations unassigned_Resource = Inl (TypeError Property_of_undefined)"
  by (simp add: decorations_def getIconPath_def unassigned_Resource_def)

lemma decorations_of_deleted_file:
  "decorations \<lparr>p_file = Some ''src/old.ts'', p_resourceUri = Some (File (Join ''/ws'' ''src/old.ts'')),
       p_status = Some ''D''\<rparr> =
     Inr \<lparr>strikeThrough = True, faded = True, light = Some (Light, Deleted), dark = Some (Dark, Deleted)\<rparr>"
  by (simp add: decorations_def getIconPath_def toLocaleUpperCase_def)

lemma decorations_of_modified_file:
  "decorations \<lparr>p_file = Some ''src/foo.ts'', p_resourceUri = Some (File (Join ''/ws'' ''src/foo.ts'')),
       p_status = Some ''M''\<rparr> =
     Inr \<lparr>strikeThrough = False, faded = False, light = Some (Light, Modified),
          dark = Some (Dark, Modified)\<rparr>"
  by (simp add: decorations_def getIconPath_def toLocaleUpperCase_def)

section \<open>The subprocess text collector\<close>

lemma stdout_of_started:
  assumes "stdout p = evs" and "evs \<noteq> []"
  obtains status where "p = Started status evs"
  using assms by (cases p) auto

lemma listeners_end_close:
  "endAction (content @ concat chunks) s = (s', None) \<Longrightarrow>
   listeners endAction (map Data chunks @ End # Close # rest) content s = (s', Fulfilled ())"
  by (induction chunks arbitrary: content) simp_all

lemma listeners_end_throws:
  "endAction (content @ concat chunks) s = (s', Some e) \<Longrightarrow>
   listeners endAction (map Data chunks @ End # rest) content s = (s', Uncaught e)"
  by (induction chunks arbitrary: content) simp_all

lemma listeners_stream_error:
  "listeners endAction (map Data chunks @ Stream_error e # rest) content s = (s, Rejected e)"
  by (induction chunks arbitrary: content) simp_all

lemma listeners_rejected:
  "snd (listeners endAction evs content s) = Rejected e \<Longrightarrow> Stream_error e \<in> set evs"
proof (induction endAction evs content s rule: listeners.induct)
  case (3 endAction evs content s)
  then show ?case
    by (cases "endAction content s") (auto split: option.splits)
qed auto

lemma runGitCommand_end_close:
  assumes "stdout (git h args) = map Data chunks @ End # Close # rest"
    and "endAction (concat chunks) s = (s', None)"
  shows "runGitCommand h args endAction (spawned, s) = ((spawned @ [args], s'), Fulfilled ())"
proof -
  from assms(1) obtain status where "git h args = Started status (map Data chunks @ End # Close # rest)"
    by (rule stdout_of_started) simp
  then show ?thesis
    using assms(2) listeners_end_close [of endAction "[]" chunks s s' rest]
    by (simp add: runGitCommand_def)
qed

lemma runGitCommand_end_throws:
  assumes "stdout (git h args) = map Data chunks @ End # rest"
    and "endAction (concat chunks) s = (s', Some e)"
  shows "runGitCommand h args endAction (spawned, s) = ((spawned @ [args], s'), Uncaught e)"
proof -
  from assms(1) obtain status where "git h args = Started status (map Data chunks @ End # rest)"
    by (rule stdout_of_started) simp
  then show ?thesis
    using assms(2) listeners_end_throws [of endAction "[]" chunks s s' e rest]
    by (simp add: runGitCommand_def)
qed

text \<open>
  The failures that runGitCommand reports through the promise are an error event of the
  standard output stream and what \<open>spawn\<close> or \<open>out.setEncoding\<close> throw. The error of a process
  that could not be started is not among them, and the exit status makes no difference to
  what runGitCommand does.
\<close>

lemma runGitCommand_stream_error:
  assumes "stdout (git h args) = map Data chunks @ Stream_error e # rest"
  shows "runGitCommand h args endAction (spawned, s) = ((spawned @ [args], s), Rejected e)"
proof -
  from assms obtain status where "git h args = Started status (map Data chunks @ Stream_error e # rest)"
    by (rule stdout_of_started) simp
  then show ?thesis
    by (simp add: runGitCommand_def listeners_stream_error)
qed

lemma runGitCommand_spawn_throws:
  assumes "git h args = Spawn_throws e"
  shows "runGitCommand h args endAction (spawned, s) = ((spawned @ [args], s), Rejected e)"
  using assms by (simp add: runGitCommand_def)

lemma runGitCommand_not_started:
  assumes "git h args = Not_started e"
  shows "runGitCommand h args endAction (spawned, s) = ((spawned @ [args], s), Uncaught e)"
  using assms by (simp add: runGitCommand_def)

lemma runGitCommand_without_streams:
  assumes "git h args = Not_started_without_streams e"
  shows "runGitCommand h args endAction (spawned, s) =
    ((spawned @ [args], s), Rejected (TypeError Property_of_undefined))"
  using assms by (simp add: runGitCommand_def)

lemma runGitCommand_ignores_exit_status:
  assumes "git h args = Started status evs" and "git h' args = Started status' evs"
  shows "runGitCommand h args endAction w = runGitCommand h' args endAction w"
  using assms by (simp add: runGitCommand_def)

lemma runGitCommand_stream_error_example:
  "runGitCommand host_stream_error [''rev-parse'', ''--abbrev-ref'', ''HEAD'']
     getCurrentBranch_endAction ([], '''') =
   (([[''rev-parse'', ''--abbrev-ref'', ''HEAD'']], ''''), Rejected (Error ''read EIO''))"
  by (simp add: runGitCommand_def host_stream_error_def git_stream_error_def)

text \<open>
  C4. A \<open>git\<close> that fails is not reported as a failure. When it exits with status 128 and has
  written nothing to its standard output, the stream ends and closes, the end callback gets
  the empty text and the promise resolves: getCurrentBranch returns the empty string. When
  \<open>git\<close> cannot be started, the error of the child process is thrown out of the event loop,
  uncaught, and the promise is not rejected with it.
\<close>

theorem failing_git_is_not_rejected:
  "git host_failing [''rev-parse'', ''--abbrev-ref'', ''HEAD''] = Started 128 [End, Close] \<and>
   runGitCommand host_failing [''rev-parse'', ''--abbrev-ref'', ''HEAD''] getCurrentBranch_endAction
     ([], ''unset'') = (([[''rev-parse'', ''--abbrev-ref'', ''HEAD'']], ''''), Fulfilled ()) \<and>
   getCurrentBranch host_failing [] = ([[''rev-parse'', ''--abbrev-ref'', ''HEAD'']], Fulfilled '''') \<and>
   git host_without_git [''rev-parse'', ''--abbrev-ref'', ''HEAD''] =
     Not_started (Error ''spawn git ENOENT'') \<and>
   runGitCommand host_without_git [''rev-parse'', ''--abbrev-ref'', ''HEAD''] getCurrentBranch_endAction
     ([], ''unset'') =
     (([[''rev-parse'', ''--abbrev-ref'', ''HEAD'']], ''unset''), Uncaught (Error ''spawn git ENOENT''))"
  by (simp add: host_failing_def git_failing_def host_without_git_def git_missing_def
      runGitCommand_def getCurrentBranch_endAction_def getCurrentBranch_def trim_def)

section \<open>Counting the commits\<close>

lemma is_decimal_digit: "is_digit 10 c \<longleftrightarrow> c \<in> set ''0123456789''"
proof -
  have "(of_char c :: nat) < 256" by simp
  then show ?thesis
    unfolding is_digit_def digit_value_def Let_def
    apply (simp add: char_eq_code [of c])
    by arith
qed

lemma parseInt_no_digit:
  assumes "\<forall>c \<in> set s. c \<notin> set ''0123456789''"
  shows "parseInt s = NaN"
proof -
  define D where "D = set ''0123456789''"
  define S where "S = dropWhile isWhiteSpace s"
  define S1 where "S1 = (if prefix ''-'' S \<or> prefix ''+'' S then drop 1 S else S)"
  have digit: "is_digit 10 c \<longleftrightarrow> c \<in> D" for c
    unfolding D_def by (rule is_decimal_digit)
  have zero: "CHR ''0'' \<in> D"
    unfolding D_def by simp
  have "set S \<subseteq> set s"
    unfolding S_def by (simp add: set_dropWhileD subsetI)
  moreover have "set S1 \<subseteq> set S"
    unfolding S1_def by (auto dest: in_set_dropD)
  ultimately have nodigit: "\<forall>c \<in> set S1. c \<notin> D"
    using assms unfolding D_def by blast
  have nohex: "\<not> prefix (CHR ''0'' # x) S1" for x
  proof
    assume "prefix (CHR ''0'' # x) S1"
    then have "CHR ''0'' \<in> set S1"
      by (cases S1) simp_all
    with nodigit zero show False by blast
  qed
  have "takeWhile (is_digit 10) S1 = []"
  proof (cases S1)
    case (Cons c cs)
    with nodigit have "c \<notin> D" by simp
    with Cons show ?thesis by (simp add: digit)
  qed simp
  then show ?thesis
    unfolding parseInt_def Let_def S_def [symmetric] S1_def [symmetric]
    using nohex by simp
qed

lemma parseInt_42: "parseInt (''42'' @ [LF]) = Number 42"
  by (simp add: parseInt_def Let_def isWhiteSpace_def is_digit_def digit_value_def
      numeral_value_def LF_def)

text \<open>
  C2 (as amended). When the output of \<open>git rev-list --count HEAD\<close> has been delivered,
  getCommitsCount resolves with \<open>parseInt\<close> of that output and never fails on the text: the
  value is 42 for the output \<open>42\<close> followed by a line feed, and it is NaN for every output
  without a decimal digit.
\<close>

theorem getCommitsCount_returns_parseInt:
  assumes "stdout (git h [''rev-list'', ''--count'', ''HEAD'']) = map Data chunks @ [End, Close]"
  shows "getCommitsCount h spawned =
      (spawned @ [[''rev-list'', ''--count'', ''HEAD'']], Fulfilled (Some (parseInt (concat chunks)))) \<and>
    (concat chunks = ''42'' @ [LF] \<longrightarrow> parseInt (concat chunks) = Number 42) \<and>
    ((\<forall>c \<in> set (concat chunks). c \<notin> set ''0123456789'') \<longrightarrow> parseInt (concat chunks) = NaN)"
proof -
  have "runGitCommand h [''rev-list'', ''--count'', ''HEAD''] getCommitsCount_endAction (spawned, None) =
      ((spawned @ [[''rev-list'', ''--count'', ''HEAD'']], Some (parseInt (concat chunks))), Fulfilled ())"
    using assms by (intro runGitCommand_end_close) (simp_all add: getCommitsCount_endAction_def)
  then have "getCommitsCount h spawned =
      (spawned @ [[''rev-list'', ''--count'', ''HEAD'']], Fulfilled (Some (parseInt (concat chunks))))"
    by (simp add: getCommitsCount_def)
  then show ?thesis
    using parseInt_42 parseInt_no_digit by simp
qed

theorem getCommitsCount_witness:
  "getCommitsCount (host_printing [''4'', ''2'' @ [LF]]) [] =
     ([[''rev-list'', ''--count'', ''HEAD'']], Fulfilled (Some (Number 42))) \<and>
   getCommitsCount (host_printing [''not a number'']) [] =
     ([[''rev-list'', ''--count'', ''HEAD'']], Fulfilled (Some NaN))"
  using getCommitsCount_returns_parseInt [of "host_printing [''4'', ''2'' @ [LF]]" "[''4'', ''2'' @ [LF]]" "[]"]
    getCommitsCount_returns_parseInt [of "host_printing [''not a number'']" "[''not a number'']" "[]"]
  by (simp add: host_printing_def git_printing_def)

theorem getCommitsCount_counterexample:
  "getCommitsCount (host_printing [''not a number'']) [] =
     ([[''rev-list'', ''--count'', ''HEAD'']], Fulfilled (Some NaN))"
  by (simp add: host_printing_def git_printing_def getCommitsCount_def runGitCommand_def
      getCommitsCount_endAction_def parseInt_def Let_def isWhiteSpace_def is_digit_def digit_value_def)

section \<open>Selecting a commit\<close>

text \<open>
  C7. \<open>update\<close> with a falsy commit identifier (undefined, null or the empty string) sets the
  published resource list to the empty list, spawns nothing and resolves.
\<close>

theorem update_with_falsy_commit_clears:
  assumes "falsy commit"
  shows "update h commit (spawned, this) = ((spawned, this\<lparr>resourceStates := []\<rparr>), Fulfilled ())"
  using assms by (simp add: update_def)

theorem update_with_falsy_commit_witness:
  "update host_failing (Some '''') ([], \<lparr>sha = Some ''abc1234'', resourceStates = [unassigned_Resource]\<rparr>) =
     (([], \<lparr>sha = Some ''abc1234'', resourceStates = []\<rparr>), Fulfilled ()) \<and>
   update host_failing None ([], \<lparr>sha = Some ''abc1234'', resourceStates = [unassigned_Resource]\<rparr>) =
     (([], \<lparr>sha = Some ''abc1234'', resourceStates = []\<rparr>), Fulfilled ())"
  using update_with_falsy_commit_clears [of "Some ''''" host_failing "[]"]
    update_with_falsy_commit_clears [of None host_failing "[]"]
  by (simp add: falsy_def)

lemma forEach_line_status_lines:
  assumes "2 \<le> i"
    and "map (new_Resource root) (filter (\<lambda>v. v \<noteq> []) vs) = map Inr rs"
  shows "forEach_line root i vs (this, resources) = ((this, resources @ rs), None)"
  using assms
proof (induction vs arbitrary: i resources rs)
  case Nil
  then show ?case by simp
next
  case (Cons v vs)
  show ?case
  proof (cases "v = []")
    case True
    with Cons show ?thesis by simp
  next
    case False
    with Cons.prems(2) obtain r rs' where rs: "rs = r # rs'" and r: "new_Resource root v = Inr r"
      and rest: "map (new_Resource root) (filter (\<lambda>v. v \<noteq> []) vs) = map Inr rs'"
      by (cases rs) auto
    from Cons.prems(1) have "2 \<le> Suc i" by simp
    from Cons.IH [OF this rest, of "resources @ [r]"] False Cons.prems(1) r rs
    show ?thesis by simp
  qed
qed

lemma forEach_line_throws:
  assumes "2 \<le> i"
    and "filter (\<lambda>v. v \<noteq> []) vs = pre @ bad # post"
    and "map (new_Resource root) pre = map Inr rs"
    and "new_Resource root bad = Inl e"
  shows "forEach_line root i vs (this, resources) = ((this, resources @ rs), Some e)"
  using assms
proof (induction vs arbitrary: i resources rs pre)
  case Nil
  then show ?case by simp
next
  case (Cons v vs)
  from Cons.prems(1) have i: "2 \<le> Suc i" "1 < i" "i \<noteq> 0" by simp_all
  show ?case
  proof (cases "v = []")
    case True
    with Cons.prems(2) have "filter (\<lambda>v. v \<noteq> []) vs = pre @ bad # post" by simp
    from Cons.IH [OF i(1) this Cons.prems(3,4)] True i show ?thesis by simp
  next
    case False
    show ?thesis
    proof (cases pre)
      case Nil
      with Cons.prems(2) False have "v = bad" by simp
      with Nil Cons.prems(3,4) False i show ?thesis by simp
    next
      case (Cons p pre')
      with Cons.prems(2) False have v: "v = p" and rest: "filter (\<lambda>v. v \<noteq> []) vs = pre' @ bad # post"
        by simp_all
      from Cons Cons.prems(3) obtain r rs' where rs: "rs = r # rs'" and r: "new_Resource root p = Inr r"
        and pre': "map (new_Resource root) pre' = map Inr rs'"
        by (cases rs) auto
      from Cons.IH [OF i(1) rest pre' Cons.prems(4), of "resources @ [r]"] False i v r rs
      show ?thesis by simp
    qed
  qed
qed

lemma forEach_line_first_lines:
  "forEach_line root 0 (first # rest) (this, resources) =
     forEach_line root 2 (drop 1 rest) (this\<lparr>sha := Some first\<rparr>, resources)"
  by (cases rest) (simp_all add: numeral_2_eq_2)

text \<open>
  C8. For a non-empty commit identifier whose \<open>git show\<close> output has been delivered, \<open>update\<close>
  spawns that one command and stores the first output line in \<open>sha\<close>. The status lines are
  the non-empty lines from the third line on; the second line is never looked at. When the
  parser accepts each status line, the published resources are its results in the same
  order. When it throws on one of them, \<open>sha\<close> is stored all the same and the exception
  leaves uncaught through the end listener, the published list being still as it was.
\<close>

theorem update_records_sha_and_resources:
  assumes "stdout (git h (updateResources_args commit)) = map Data chunks @ [End, Close]"
    and "commit \<noteq> []"
    and "split_at match_newline (concat chunks) = first # rest"
    and "status_lines = filter (\<lambda>v. v \<noteq> []) (drop 1 rest)"
  shows "(map (new_Resource (rootPath h)) status_lines = map Inr resources \<longrightarrow>
      update h (Some commit) (spawned, this) =
        ((spawned @ [updateResources_args commit],
          this\<lparr>sha := Some first, resourceStates := resources\<rparr>), Fulfilled ())) \<and>
    (status_lines = pre @ bad # post \<and> map (new_Resource (rootPath h)) pre = map Inr resources \<and>
     new_Resource (rootPath h) bad = Inl e \<longrightarrow>
      update h (Some commit) (spawned, this) =
        ((spawned @ [updateResources_args commit], this\<lparr>sha := Some first\<rparr>), Uncaught e))"
proof (intro conjI impI)
  assume ok: "map (new_Resource (rootPath h)) status_lines = map Inr resources"
  have "updateResources_endAction (rootPath h) (concat chunks) (this, []) =
      ((this\<lparr>sha := Some first\<rparr>, resources), None)"
    unfolding updateResources_endAction_def assms(3) forEach_line_first_lines
    using forEach_line_status_lines [of 2 "rootPath h" "drop 1 rest" resources] ok assms(4)
    by simp
  with assms(1) have "runGitCommand h (updateResources_args commit)
      (updateResources_endAction (rootPath h)) (spawned, (this, [])) =
      ((spawned @ [updateResources_args commit], (this\<lparr>sha := Some first\<rparr>, resources)), Fulfilled ())"
    by (intro runGitCommand_end_close) simp_all
  then show "update h (Some commit) (spawned, this) =
        ((spawned @ [updateResources_args commit],
          this\<lparr>sha := Some first, resourceStates := resources\<rparr>), Fulfilled ())"
    using assms(2) by (simp add: update_def updateResources_def falsy_def)
next
  assume bad: "status_lines = pre @ bad # post \<and>
    map (new_Resource (rootPath h)) pre = map Inr resources \<and> new_Resource (rootPath h) bad = Inl e"
  have "updateResources_endAction (rootPath h) (concat chunks) (this, []) =
      ((this\<lparr>sha := Some first\<rparr>, resources), Some e)"
    unfolding updateResources_endAction_def assms(3) forEach_line_first_lines
    using forEach_line_throws [of 2 "drop 1 rest" pre bad post "rootPath h" resources e] bad assms(4)
    by simp
  with assms(1) have "runGitCommand h (updateResources_args commit)
      (updateResources_endAction (rootPath h)) (spawned, (this, [])) =
      ((spawned @ [updateResources_args commit], (this\<lparr>sha := Some first\<rparr>, resources)), Uncaught e)"
    by (intro runGitCommand_end_throws) simp_all
  then show "update h (Some commit) (spawned, this) =
        ((spawned @ [updateResources_args commit], this\<lparr>sha := Some first\<rparr>), Uncaught e)"
    using assms(2) by (simp add: update_def updateResources_def falsy_def)
qed

lemma show_output_lines:
  "split_at match_newline
     (concat [''abc1234'' @ [LF] @ ''skipped'' @ [LF] @ ''M'' @ [TAB] @ ''src/'',
              ''foo.ts'' @ [CR, LF] @ [LF] @ ''D'' @ [TAB] @ ''src/old.ts'' @ [LF]]) =
   ''abc1234'' # [''skipped'', ''M'' @ [TAB] @ ''src/foo.ts'', '''', ''D'' @ [TAB] @ ''src/old.ts'', '''']"
  by (simp add: match_newline_def LF_def CR_def TAB_def)

lemma show_output_lines_unknown:
  "split_at match_newline
     (concat [''abc1234'' @ [LF] @ [LF] @ ''M'' @ [TAB] @ ''a'' @ [LF] @ ''X'' @ [TAB] @ ''b'' @ [LF]]) =
   ''abc1234'' # ['''', ''M'' @ [TAB] @ ''a'', ''X'' @ [TAB] @ ''b'', '''']"
  by (simp add: match_newline_def LF_def CR_def TAB_def)

lemma new_Resource_examples:
  "new_Resource (Some ''/ws'') (CHR ''M'' # TAB # ''src/foo.ts'') =
     Inr \<lparr>p_file = Some ''src/foo.ts'', p_resourceUri = Some (File (Join ''/ws'' ''src/foo.ts'')),
          p_status = Some ''M''\<rparr>"
  "new_Resource (Some ''/ws'') (CHR ''D'' # TAB # ''src/old.ts'') =
     Inr \<lparr>p_file = Some ''src/old.ts'', p_resourceUri = Some (File (Join ''/ws'' ''src/old.ts'')),
          p_status = Some ''D''\<rparr>"
  "new_Resource (Some ''/ws'') (CHR ''M'' # TAB # ''a'') =
     Inr \<lparr>p_file = Some ''a'', p_resourceUri = Some (File (Join ''/ws'' ''a'')), p_status = Some ''M''\<rparr>"
  "new_Resource (Some ''/ws'') (CHR ''X'' # TAB # ''b'') = Inl (Error (''Cannot parse X'' @ TAB # ''b''))"
  by (simp_all add: new_Resource_def parseInfoLine_def match_tab_def TAB_def toLocaleUpperCase_def
      assign_fields_def createUri_def path_join_def index_def unassigned_Resource_def)

theorem update_witness:
  "update
     (host_printing [''abc1234'' @ [LF] @ ''skipped'' @ [LF] @ ''M'' @ [TAB] @ ''src/'',
                     ''foo.ts'' @ [CR, LF] @ [LF] @ ''D'' @ [TAB] @ ''src/old.ts'' @ [LF]])
     (Some ''abc'') ([], \<lparr>sha = None, resourceStates = []\<rparr>) =
   (([updateResources_args ''abc''],
     \<lparr>sha = Some ''abc1234'',
      resourceStates =
        [\<lparr>p_file = Some ''src/foo.ts'', p_resourceUri = Some (File (Join ''/ws'' ''src/foo.ts'')),
          p_status = Some ''M''\<rparr>,
         \<lparr>p_file = Some ''src/old.ts'', p_resourceUri = Some (File (Join ''/ws'' ''src/old.ts'')),
          p_status = Some ''D''\<rparr>]\<rparr>),
    Fulfilled ()) \<and>
   update
     (host_printing [''abc1234'' @ [LF] @ [LF] @ ''M'' @ [TAB] @ ''a'' @ [LF] @ ''X'' @ [TAB] @ ''b'' @ [LF]])
     (Some ''abc'') ([], \<lparr>sha = None, resourceStates = []\<rparr>) =
   (([updateResources_args ''abc''], \<lparr>sha = Some ''abc1234'', resourceStates = []\<rparr>),
    Uncaught (Error (''Cannot parse X'' @ [TAB] @ ''b'')))"
proof -
  have out: "stdout (git (host_printing chunks) args) = map Data chunks @ [End, Close]" for chunks args
    by (simp add: host_printing_def git_printing_def)
  have root: "rootPath (host_printing chunks) = Some ''/ws''" for chunks
    by (simp add: host_printing_def)
  note first = update_records_sha_and_resources [OF out _ show_output_lines refl,
      of "''abc''" "[\<lparr>p_file = Some ''src/foo.ts'', p_resourceUri = Some (File (Join ''/ws'' ''src/foo.ts'')),
          p_status = Some ''M''\<rparr>,
         \<lparr>p_file = Some ''src/old.ts'', p_resourceUri = Some (File (Join ''/ws'' ''src/old.ts'')),
          p_status = Some ''D''\<rparr>]" "[]" "\<lparr>sha = None, resourceStates = []\<rparr>" "[]" "[]" "[]" "Error []"]
  note second = update_records_sha_and_resources [OF out _ show_output_lines_unknown refl,
      of "''abc''" "[\<lparr>p_file = Some ''a'', p_resourceUri = Some (File (Join ''/ws'' ''a'')),
          p_status = Some ''M''\<rparr>]" "[]" "\<lparr>sha = None, resourceStates = []\<rparr>"
         "[''M'' @ [TAB] @ ''a'']" "''X'' @ [TAB] @ ''b''" "[]" "Error (''Cannot parse X'' @ [TAB] @ ''b'')"]
  show ?thesis
    using first second by (simp add: root new_Resource_examples)
qed

section \<open>The log tokenizer\<close>

lemma forEach_item_short:
  "i + length vs \<le> 6 \<Longrightarrow> snd (forEach_item i vs (items, entries)) = entries"
proof (induction vs arbitrary: i items)
  case Nil
  then show ?case by simp
next
  case (Cons v vs)
  then have "i \<le> 5" by simp
  then consider "i = 0" | "i = 1" | "i = 2" | "i = 3" | "i = 4" | "i = 5" by linarith
  then show ?case
    using Cons by cases (simp_all add: Let_def)
qed

lemma forEach_item_complete:
  "snd (forEach_item 0 [lead, s, h, r, a, e, d] (items, entries)) =
     entries @ [\<lparr>subject = Some s, hash = Some h, ref = Some r, author = Some a, email = Some e,
                  date = Some d\<rparr>]"
  by (simp add: Let_def)

lemma length_6_fields:
  assumes "length fs = 6"
  obtains s h r a e d where "fs = [s, h, r, a, e, d]"
proof -
  from assms obtain s h r a e d rest where "fs = s # h # r # a # e # d # rest"
    by (auto simp: length_Suc_conv numeral_eq_Suc)
  with assms that show ?thesis by simp
qed

lemma forEach_item_six_fields:
  assumes "length fs = 6"
  shows "snd (forEach_item 0 (lead # fs) (items, entries)) = entries @ [LogEntry_of_fields fs]"
proof -
  from assms obtain s h r a e d where "fs = [s, h, r, a, e, d]"
    by (rule length_6_fields)
  then show ?thesis
    by (simp only: forEach_item_complete LogEntry_of_fields_def) simp
qed

lemma forEach_entry_append:
  "forEach_entry (xs @ ys) entries = forEach_entry ys (forEach_entry xs entries)"
  by (induction xs arbitrary: entries) simp_all

lemma forEach_entry_filter:
  "forEach_entry frags entries = forEach_entry (filter (\<lambda>e. e \<noteq> []) frags) entries"
  by (induction frags arbitrary: entries) simp_all

lemma forEach_entry_complete:
  assumes "\<forall>e \<in> set frags. e \<noteq> [] \<and> split_string itemSeparator e \<noteq> [] \<and>
      length (tl (split_string itemSeparator e)) = 6"
  shows "forEach_entry frags entries =
      entries @ map (\<lambda>e. LogEntry_of_fields (tl (split_string itemSeparator e))) frags"
  using assms
proof (induction frags arbitrary: entries)
  case Nil
  then show ?case by simp
next
  case (Cons frag frags)
  then obtain lead fs where split: "split_string itemSeparator frag = lead # fs" and six: "length fs = 6"
    by (cases "split_string itemSeparator frag") auto
  have "snd (forEach_item 0 (split_string itemSeparator frag) (undefined_items, entries)) =
      entries @ [LogEntry_of_fields (tl (split_string itemSeparator frag))]"
    unfolding split list.sel by (rule forEach_item_six_fields [OF six])
  with Cons show ?case by simp
qed

text \<open>
  C9. An entry fragment with fewer than six items after its leading item adds no LogEntry:
  the entries are the same as if the fragment were not there, and the callback reports no
  error.
\<close>

theorem incomplete_entry_is_dropped:
  assumes "length (split_string itemSeparator entry) < 7"
  shows "snd (forEach_item 0 (split_string itemSeparator entry) (undefined_items, entries)) = entries \<and>
    forEach_entry (before @ entry # after) entries = forEach_entry (before @ after) entries \<and>
    snd (getLogEntries_endAction content entries) = None"
proof -
  have drop: "snd (forEach_item 0 (split_string itemSeparator entry) (undefined_items, es)) = es" for es
    using assms by (intro forEach_item_short) simp
  then have "forEach_entry (entry # after) es = forEach_entry after es" for es
    by simp
  then show ?thesis
    using drop by (simp add: forEach_entry_append getLogEntries_endAction_def)
qed

text \<open>
  C6. Let the delivered output be cut by the entry separator into fragments, the empty ones
  left out, and let each fragment be cut by the item separator into exactly seven items, a
  leading one and six fields. Then getLogEntries resolves with one LogEntry per fragment,
  in the order of the fragments, made of the six fields of the fragment.
\<close>

theorem getLogEntries_returns_records_in_order:
  assumes "stdout (git h (getLogEntries_args start count)) = map Data chunks @ [End, Close]"
    and "fragments = filter (\<lambda>e. e \<noteq> []) (split_string entrySeparator (concat chunks))"
    and "records = map (\<lambda>e. tl (split_string itemSeparator e)) fragments"
    and "\<forall>e \<in> set fragments. length (split_string itemSeparator e) = 7"
  shows "getLogEntries h start count spawned =
      (spawned @ [getLogEntries_args start count], Fulfilled (map LogEntry_of_fields records))"
proof -
  have "\<forall>e \<in> set fragments. e \<noteq> [] \<and> split_string itemSeparator e \<noteq> [] \<and>
      length (tl (split_string itemSeparator e)) = 6"
    using assms(2,4) by auto
  then have "forEach_entry fragments [] = map LogEntry_of_fields records"
    by (simp add: forEach_entry_complete assms(3) comp_def)
  then have "getLogEntries_endAction (concat chunks) [] = (map LogEntry_of_fields records, None)"
    unfolding getLogEntries_endAction_def assms(2)
    using forEach_entry_filter [of "split_string entrySeparator (concat chunks)" "[]"] by simp
  with assms(1) have "runGitCommand h (getLogEntries_args start count) getLogEntries_endAction (spawned, []) =
      ((spawned @ [getLogEntries_args start count], map LogEntry_of_fields records), Fulfilled ())"
    by (intro runGitCommand_end_close) simp_all
  then show ?thesis
    by (simp add: getLogEntries_def)
qed

lemma incomplete_entry_items:
  "length (split_string itemSeparator
     (itemSeparator @ ''Fix the parser'' @ itemSeparator @ ''abc1234'' @ itemSeparator @ '' (HEAD)'')) < 7"
  by code_simp

theorem incomplete_entry_witness:
  "forEach_entry
     [itemSeparator @ ''Fix the parser'' @ itemSeparator @ ''abc1234'' @ itemSeparator @ '' (HEAD)'', ''''] [] = [] \<and>
   snd (getLogEntries_endAction
     (itemSeparator @ ''Fix the parser'' @ itemSeparator @ ''abc1234'' @ itemSeparator @ '' (HEAD)''
        @ entrySeparator) []) = None"
  using incomplete_entry_is_dropped [OF incomplete_entry_items, of "[]" "[]" "['''']"
      "itemSeparator @ ''Fix the parser'' @ itemSeparator @ ''abc1234'' @ itemSeparator @ '' (HEAD)''
        @ entrySeparator"]
  by simp

lemma log_output_fragments:
  "filter (\<lambda>e. e \<noteq> [])
     (split_string entrySeparator
       (concat [itemSeparator @ ''Fix the parser'' @ itemSeparator @ ''abc1234'' @ itemSeparator
           @ '' (HEAD)'' @ itemSeparator @ ''Ada'' @ itemSeparator @ ''ada@example.org''
           @ itemSeparator @ ''2 days ago'' @ entrySeparator @ itemSeparator @ ''First'',
         '' commit'' @ itemSeparator @ ''0123abc'' @ itemSeparator @ '''' @ itemSeparator @ ''Bob''
           @ itemSeparator @ ''bob@example.org'' @ itemSeparator @ ''3 weeks ago'' @ entrySeparator])) =
   [itemSeparator @ ''Fix the parser'' @ itemSeparator @ ''abc1234'' @ itemSeparator @ '' (HEAD)''
      @ itemSeparator @ ''Ada'' @ itemSeparator @ ''ada@example.org'' @ itemSeparator @ ''2 days ago'',
    itemSeparator @ ''First commit'' @ itemSeparator @ ''0123abc'' @ itemSeparator @ ''''
      @ itemSeparator @ ''Bob'' @ itemSeparator @ ''bob@example.org'' @ itemSeparator @ ''3 weeks ago'']"
  by code_simp

lemma log_output_records:
  "map (\<lambda>e. tl (split_string itemSeparator e))
     [itemSeparator @ ''Fix the parser'' @ itemSeparator @ ''abc1234'' @ itemSeparator @ '' (HEAD)''
        @ itemSeparator @ ''Ada'' @ itemSeparator @ ''ada@example.org'' @ itemSeparator @ ''2 days ago'',
      itemSeparator @ ''First commit'' @ itemSeparator @ ''0123abc'' @ itemSeparator @ ''''
        @ itemSeparator @ ''Bob'' @ itemSeparator @ ''bob@example.org'' @ itemSeparator @ ''3 weeks ago''] =
   [[''Fix the parser'', ''abc1234'', '' (HEAD)'', ''Ada'', ''ada@example.org'', ''2 days ago''],
    [''First commit'', ''0123abc'', '''', ''Bob'', ''bob@example.org'', ''3 weeks ago'']]"
  by code_simp

lemma log_output_items:
  "\<forall>e \<in> set
     [itemSeparator @ ''Fix the parser'' @ itemSeparator @ ''abc1234'' @ itemSeparator @ '' (HEAD)''
        @ itemSeparator @ ''Ada'' @ itemSeparator @ ''ada@example.org'' @ itemSeparator @ ''2 days ago'',
      itemSeparator @ ''First commit'' @ itemSeparator @ ''0123abc'' @ itemSeparator @ ''''
        @ itemSeparator @ ''Bob'' @ itemSeparator @ ''bob@example.org'' @ itemSeparator @ ''3 weeks ago''].
     length (split_string itemSeparator e) = 7"
  by code_simp

theorem getLogEntries_witness:
  "getLogEntries
     (host_printing
       [itemSeparator @ ''Fix the parser'' @ itemSeparator @ ''abc1234'' @ itemSeparator
           @ '' (HEAD)'' @ itemSeparator @ ''Ada'' @ itemSeparator @ ''ada@example.org''
           @ itemSeparator @ ''2 days ago'' @ entrySeparator @ itemSeparator @ ''First'',
         '' commit'' @ itemSeparator @ ''0123abc'' @ itemSeparator @ '''' @ itemSeparator @ ''Bob''
           @ itemSeparator @ ''bob@example.org'' @ itemSeparator @ ''3 weeks ago'' @ entrySeparator])
     0 2 [] =
   ([getLogEntries_args 0 2],
    Fulfilled
      [\<lparr>subject = Some ''Fix the parser'', hash = Some ''abc1234'', ref = Some '' (HEAD)'',
        author = Some ''Ada'', email = Some ''ada@example.org'', date = Some ''2 days ago''\<rparr>,
       \<lparr>subject = Some ''First commit'', hash = Some ''0123abc'', ref = Some '''',
        author = Some ''Bob'', email = Some ''bob@example.org'', date = Some ''3 weeks ago''\<rparr>])"
proof -
  have out: "stdout (git (host_printing chunks) args) = map Data chunks @ [End, Close]" for chunks args
    by (simp add: host_printing_def git_printing_def)
  from getLogEntries_returns_records_in_order
    [OF out log_output_fragments [symmetric] log_output_records [symmetric] log_output_items, of 0 2 "[]"]
  show ?thesis
    by (simp add: LogEntry_of_fields_def)
qed

subsection \<open>Output made by the format string\<close>

text \<open>
  The fragments are as that theorem asks when the output is what the format string makes
  of commits whose fields are separable, so getLogEntries returns exactly these commits. It is
  not enough that no field contains a separator: the entry separator without its first
  character is such a field, and with it as the subject the entry separator is found one
  character early, inside the item separator, and the commit is lost.
\<close>

lemma prefix_within:
  assumes "prefix sep (p @ q)" and "length sep \<le> length p"
  shows "prefix sep p"
proof -
  from assms(1) obtain zs where "p @ q = sep @ zs"
    by (auto simp: prefix_def)
  then have "take (length sep) (p @ q) = sep"
    by simp
  with assms(2) have "take (length sep) p = sep"
    by simp
  then show ?thesis
    by (metis take_is_prefix)
qed

lemma split_at_piece:
  assumes "sep \<noteq> []" and "\<not> sublist sep (x @ butlast sep)"
  shows "split_at (match_string sep) (x @ sep @ rest) = x # split_at (match_string sep) rest"
  using assms(2)
proof (induction x)
  case Nil
  from assms(1) obtain c cs where sep: "sep = c # cs" by (cases sep) auto
  have "match_string sep (sep @ rest) = length sep"
    by (simp add: match_string_def)
  then show ?case
    by (simp add: sep)
next
  case (Cons c x)
  have full: "(c # x) @ sep @ rest = ((c # x) @ butlast sep) @ last sep # rest"
    using assms(1) by simp
  have "\<not> prefix sep ((c # x) @ sep @ rest)"
  proof
    assume "prefix sep ((c # x) @ sep @ rest)"
    then have "prefix sep (((c # x) @ butlast sep) @ last sep # rest)"
      by (simp only: full)
    moreover have "length sep \<le> length ((c # x) @ butlast sep)"
      by simp
    ultimately have "prefix sep ((c # x) @ butlast sep)"
      by (rule prefix_within)
    then have "sublist sep ((c # x) @ butlast sep)"
      by (rule prefix_imp_sublist)
    with Cons.prems show False by simp
  qed
  then have no: "match_string sep (c # x @ sep @ rest) = 0"
    by (simp add: match_string_def)
  from Cons.prems have "\<not> sublist sep (x @ butlast sep)"
    by (simp add: sublist_Cons_right)
  then have "split_at (match_string sep) (x @ sep @ rest) = x # split_at (match_string sep) rest"
    by (rule Cons.IH)
  with no show ?case by simp
qed

lemma split_at_last_piece:
  assumes "sep \<noteq> []" and "\<not> sublist sep x"
  shows "split_at (match_string sep) x = [x]"
  using assms(2)
proof (induction x)
  case Nil
  then show ?case by simp
next
  case (Cons c x)
  then have "\<not> prefix sep (c # x)" "\<not> sublist sep x"
    by (auto simp: sublist_Cons_right)
  with Cons.IH show ?case
    by (simp add: match_string_def)
qed

lemma itemSeparator_nonempty: "itemSeparator \<noteq> []"
  by (simp add: itemSeparator_def)

lemma entrySeparator_nonempty: "entrySeparator \<noteq> []"
  by (simp add: entrySeparator_def)

lemma split_items_from_field:
  assumes "\<forall>g \<in> set (butlast (f # fs)). \<not> sublist itemSeparator (g @ butlast itemSeparator)"
    and "\<not> sublist itemSeparator (last (f # fs))"
  shows "split_at (match_string itemSeparator) (f @ items_text fs) = f # fs"
  using assms
proof (induction fs arbitrary: f)
  case Nil
  then show ?case
    by (simp add: items_text_def split_at_last_piece [OF itemSeparator_nonempty])
next
  case (Cons g gs)
  from Cons.prems have f: "\<not> sublist itemSeparator (f @ butlast itemSeparator)"
    and rest: "\<forall>h \<in> set (butlast (g # gs)). \<not> sublist itemSeparator (h @ butlast itemSeparator)"
      "\<not> sublist itemSeparator (last (g # gs))"
    by simp_all
  have "f @ items_text (g # gs) = f @ itemSeparator @ (g @ items_text gs)"
    by (simp add: items_text_def)
  then show ?case
    using split_at_piece [OF itemSeparator_nonempty f, of "g @ items_text gs"] Cons.IH [OF rest]
    by simp
qed

lemma split_items_text:
  assumes "fs \<noteq> []"
    and "\<forall>g \<in> set (butlast fs). \<not> sublist itemSeparator (g @ butlast itemSeparator)"
    and "\<not> sublist itemSeparator (last fs)"
  shows "split_string itemSeparator (items_text fs) = [] # fs"
proof -
  from assms(1) obtain f fs' where fs: "fs = f # fs'" by (cases fs) auto
  have lead: "\<not> sublist itemSeparator ([] @ butlast itemSeparator)"
    using itemSeparator_nonempty by (auto dest: sublist_length_le simp: itemSeparator_def)
  have "items_text fs = [] @ itemSeparator @ (f @ items_text fs')"
    by (simp add: fs items_text_def)
  then have "split_at (match_string itemSeparator) (items_text fs) =
      [] # split_at (match_string itemSeparator) (f @ items_text fs')"
    using split_at_piece [OF itemSeparator_nonempty lead, of "f @ items_text fs'"] by simp
  also have "split_at (match_string itemSeparator) (f @ items_text fs') = f # fs'"
    using assms(2,3) unfolding fs by (rule split_items_from_field)
  finally show ?thesis
    by (simp add: split_string_def itemSeparator_nonempty fs)
qed

lemma split_log_output:
  assumes "\<forall>fs \<in> set recs. \<not> sublist entrySeparator (items_text fs @ butlast entrySeparator)"
  shows "split_string entrySeparator (log_output recs) = map items_text recs @ [[]]"
proof -
  have "split_at (match_string entrySeparator) (log_output recs) = map items_text recs @ [[]]"
    using assms
  proof (induction recs)
    case Nil
    then show ?case by (simp add: log_output_def)
  next
    case (Cons fs recs)
    have "log_output (fs # recs) = items_text fs @ entrySeparator @ log_output recs"
      by (simp add: log_output_def)
    moreover from Cons.prems have "\<not> sublist entrySeparator (items_text fs @ butlast entrySeparator)"
      by simp
    ultimately have "split_at (match_string entrySeparator) (log_output (fs # recs)) =
        items_text fs # split_at (match_string entrySeparator) (log_output recs)"
      using split_at_piece [OF entrySeparator_nonempty, of "items_text fs" "log_output recs"] by simp
    with Cons show ?case by simp
  qed
  then show ?thesis
    by (simp add: split_string_def entrySeparator_nonempty)
qed

lemma items_text_nonempty: "fs \<noteq> [] \<Longrightarrow> items_text fs \<noteq> []"
  using itemSeparator_nonempty by (cases fs) (simp_all add: items_text_def)

lemma getLogEntries_on_log_output:
  assumes "stdout (git h (getLogEntries_args start count)) = map Data chunks @ [End, Close]"
    and "concat chunks = log_output recs"
    and "\<forall>fs \<in> set recs. length fs = 6 \<and> separable fs"
  shows "getLogEntries h start count spawned =
      (spawned @ [getLogEntries_args start count], Fulfilled (map LogEntry_of_fields recs))"
proof -
  have nonempty: "fs \<noteq> []" if "fs \<in> set recs" for fs
    using assms(3) that by auto
  have items: "split_string itemSeparator (items_text fs) = [] # fs" if "fs \<in> set recs" for fs
    using assms(3) that nonempty [OF that] by (intro split_items_text) (simp_all add: separable_def)
  have "split_string entrySeparator (concat chunks) = map items_text recs @ [[]]"
    unfolding assms(2) using assms(3) by (intro split_log_output) (simp add: separable_def)
  then have "forEach_entry (split_string entrySeparator (concat chunks)) [] =
      forEach_entry (map items_text recs) []"
    by (simp add: forEach_entry_append)
  also have "\<dots> = [] @ map (\<lambda>e. LogEntry_of_fields (tl (split_string itemSeparator e))) (map items_text recs)"
    using assms(3) items nonempty by (intro forEach_entry_complete) (auto simp: items_text_nonempty)
  also have "\<dots> = map LogEntry_of_fields recs"
    using items by simp
  finally have "getLogEntries_endAction (concat chunks) [] = (map LogEntry_of_fields recs, None)"
    by (simp add: getLogEntries_endAction_def)
  with assms(1) have "runGitCommand h (getLogEntries_args start count) getLogEntries_endAction (spawned, []) =
      ((spawned @ [getLogEntries_args start count], map LogEntry_of_fields recs), Fulfilled ())"
    by (intro runGitCommand_end_close) simp_all
  then show ?thesis
    by (simp add: getLogEntries_def)
qed

lemma separable_example:
  "separable [''Fix the parser'', ''abc1234'', '' (HEAD)'', ''Ada'', ''ada@example.org'', ''2 days ago'']"
  by code_simp

lemma field_completing_entrySeparator:
  "\<not> sublist itemSeparator (tl entrySeparator) \<and> \<not> sublist entrySeparator (tl entrySeparator) \<and>
   \<not> separable [tl entrySeparator, ''abc1234'', '' (HEAD)'', ''Ada'', ''ada@example.org'', ''2 days ago''] \<and>
   getLogEntries_endAction
     (log_output [[tl entrySeparator, ''abc1234'', '' (HEAD)'', ''Ada'', ''ada@example.org'', ''2 days ago'']])
     [] = ([], None)"
  by code_simp

end
